theory Spec2Isabelle
  imports Main
begin

section \<open>Data of cmd/lazycommit/main.go\<close>

text \<open>
  Go's \<open>error\<close> values that \<open>run\<close> can return. \<open>ErrorsNew\<close> is
  \<open>errors.New(text)\<close>; \<open>ErrorfResolveRef ref err\<close> is the value of
  \<open>fmt.Errorf("resolve ref %q: %w", ref, err)\<close>, kept structurally (the verb \<open>%w\<close>
  wraps \<open>err\<close>); \<open>EOF\<close> is \<open>io.EOF\<close>; \<open>External\<close> is an error value made
  outside main.go (os, os/exec, the chat client, BuildPrompt), named by its text;
  \<open>Panic\<close> is a run-time panic.
\<close>

datatype error =
    EOF
  | ErrorsNew string
  | ErrorfResolveRef string error
  | External string
  | Panic string

text \<open>\<open>errors.Unwrap\<close>: only the value built with \<open>%w\<close> wraps another error.\<close>

fun Unwrap :: "error \<Rightarrow> error option" where
  "Unwrap (ErrorfResolveRef r err) = Some err"
| "Unwrap e = None"

text \<open>\<open>openai.ChatCompletionMessage\<close>: the role is a string of the chat API.\<close>

record ChatCompletionMessage =
  Role :: string
  Content :: string

definition ChatMessageRoleSystem :: string where
  "ChatMessageRoleSystem = ''system''"

definition ChatMessageRoleUser :: string where
  "ChatMessageRoleUser = ''user''"

text \<open>
  \<open>openai.ChatCompletionRequest\<close> with the fields \<open>run\<close> sets; \<open>IncludeUsage\<close> is
  the field of \<open>StreamOptions\<close>, \<open>Temperature\<close> is the literal 0.
\<close>

record ChatCompletionRequest =
  Model :: string
  Stream :: bool
  Temperature :: int
  IncludeUsage :: bool
  Messages :: "ChatCompletionMessage list"

text \<open>
  \<open>runOptions\<close>. The field \<open>client\<close> is a pointer to the chat client; what the client
  answers is part of the world below. The field \<open>context\<close> is named \<open>context_strings\<close>.
\<close>

record runOptions =
  openAIBaseURL :: string
  model :: string
  dryRun :: bool
  amend :: bool
  ref :: string
  context_strings :: "string list"

text \<open>\<open>exec.Cmd\<close>: the resolved path of the program and its argument vector.\<close>

record Cmd =
  Path :: string
  Args :: "string list"

section \<open>The world outside main.go\<close>

text \<open>
  One answer of \<open>stream.Recv()\<close>: an error, or a response whose \<open>Choices\<close> are
  given by their \<open>Delta.Content\<close>.
\<close>

type_synonym recv = "error + string list"

text \<open>
  Everything \<open>run\<close> reads from outside this file is a field of the world:
  the answer of \<open>os.Getwd\<close>, of \<open>git\<close> run with \<open>cmd.Output()\<close> and with
  \<open>cmd.Run()\<close> (by argument vector), of \<open>BuildPrompt\<close> (defined in another file of the
  package, which is not part of the sources at hand), and of the chat client, whose stream is
  the finite list of answers that \<open>Recv\<close> gives in turn (an exhausted stream answers
  \<open>io.EOF\<close>). \<open>exec_Path\<close> is the \<open>Path\<close> that \<open>exec.Command("git", ...)\<close> resolves.
  The library functions \<open>strings.TrimSpace\<close>, \<open>filepath.Base\<close> and
  \<open>shellescape.Quote\<close> are fields too, so that every theorem holds whatever they compute.
\<close>

record world =
  os_Getwd :: "error + string"
  git_Output :: "string list \<Rightarrow> error + string"
  git_Run :: "string list \<Rightarrow> error option"
  BuildPrompt :: "string \<Rightarrow> string \<Rightarrow> bool \<Rightarrow> int \<Rightarrow> error + ChatCompletionMessage list"
  CreateChatCompletionStream :: "ChatCompletionRequest \<Rightarrow> error + recv list"
  exec_Path :: string
  strings_TrimSpace :: "string \<Rightarrow> string"
  filepath_Base :: "string \<Rightarrow> string"
  shellescape_Quote :: "string \<Rightarrow> string"

text \<open>
  What \<open>run\<close> does to the outside, in order. \<open>GitOutput args\<close> and \<open>GitRun args\<close>
  are \<open>git\<close> started with \<open>cmd.Output()\<close> and \<open>cmd.Run()\<close>; \<open>Stdout\<close> is text
  written to standard output by \<open>fmt.Println\<close> (newline included), \<open>PrettyStdout\<close> text
  written by \<open>pretty.Fprintf\<close> in colour.
\<close>

datatype event =
    Getwd
  | GitOutput "string list"
  | CallBuildPrompt string string bool int
  | CallCreateChatCompletionStream ChatCompletionRequest
  | StreamRecv
  | StreamClose
  | PrettyStdout string
  | Stdout string
  | GitRun "string list"

text \<open>
  A computation gives the events it caused and either the error it returned or its value.
  \<open>bind_io\<close> is sequencing with Go's \<open>if err != nil { return err }\<close>.
\<close>

type_synonym 'a io = "event list \<times> (error + 'a)"

definition bind_io :: "'a io \<Rightarrow> ('a \<Rightarrow> 'b io) \<Rightarrow> 'b io" where
  "bind_io m f =
     (case m of
        (tr, Inl err) \<Rightarrow> (tr, Inl err)
      | (tr, Inr x) \<Rightarrow> (case f x of (tr', r) \<Rightarrow> (tr @ tr', r)))"

definition Println :: "string \<Rightarrow> event" where
  "Println s = Stdout (s @ [CHR 0x0A])"

section \<open>The functions of main.go\<close>

definition getLastCommitHash :: "world \<Rightarrow> string io" where
  "getLastCommitHash w =
     bind_io ([GitOutput [''rev-parse'', ''HEAD'']], git_Output w [''rev-parse'', ''HEAD''])
       (\<lambda>output. ([], Inr (strings_TrimSpace w output)))"

definition resolveRef :: "world \<Rightarrow> string \<Rightarrow> string io" where
  "resolveRef w r =
     bind_io ([GitOutput [''rev-parse'', r]], git_Output w [''rev-parse'', r])
       (\<lambda>output. ([], Inr (strings_TrimSpace w output)))"

text \<open>
  \<open>formatShellCommand\<close>: the slice \<open>cmd.Args[1:]\<close> panics on an empty argument
  vector, which is \<open>None\<close> here.
\<close>

definition formatShellCommand :: "world \<Rightarrow> Cmd \<Rightarrow> string option" where
  "formatShellCommand w cmd =
     (case Args cmd of
        [] \<Rightarrow> None
      | a0 # rest \<Rightarrow>
          Some (foldl (\<lambda>buf arg. buf @ '' '' @ shellescape_Quote w arg)
                  (filepath_Base w (Path cmd)) rest))"

text \<open>
  \<open>cleanAIMessage\<close>, with the functions of package \<open>strings\<close> it calls, on bytes. It
  is declared in the copy of main.go that the sources carry beside cmd/lazycommit/main.go,
  with the comment that the model sometimes returns the message wrapped in a code block;
  \<open>run\<close> does not call it in either copy.
\<close>

definition HasPrefix :: "string \<Rightarrow> string \<Rightarrow> bool" where
  "HasPrefix s p = (take (length p) s = p)"

definition HasSuffix :: "string \<Rightarrow> string \<Rightarrow> bool" where
  "HasSuffix s p = (length p \<le> length s \<and> drop (length s - length p) s = p)"

definition TrimPrefix :: "string \<Rightarrow> string \<Rightarrow> string" where
  "TrimPrefix s p = (if HasPrefix s p then drop (length p) s else s)"

definition TrimSuffix :: "string \<Rightarrow> string \<Rightarrow> string" where
  "TrimSuffix s p = (if HasSuffix s p then take (length s - length p) s else s)"

definition cleanAIMessage :: "world \<Rightarrow> string \<Rightarrow> string" where
  "cleanAIMessage w msg =
     strings_TrimSpace w
       (if HasPrefix msg ''```''
        then TrimPrefix (TrimSuffix msg ''```'') ''```''
        else msg)"

subsection \<open>run, in the order of its statements\<close>

text \<open>
  The hash of the target: \<open>HEAD\<close> for an amend, the resolved reference when one is
  given (its error wrapped by \<open>fmt.Errorf\<close>), the empty string otherwise.
\<close>

definition run_hash :: "world \<Rightarrow> runOptions \<Rightarrow> string io" where
  "run_hash w opts =
     (if amend opts then getLastCommitHash w
      else if ref opts \<noteq> [] then
        (case resolveRef w (ref opts) of
           (tr, Inl err) \<Rightarrow> (tr, Inl (ErrorfResolveRef (ref opts) err))
         | (tr, Inr hash) \<Rightarrow> (tr, Inr hash))
      else ([], Inr []))"

text \<open>
  The messages of the request: those of \<open>BuildPrompt\<close> and, when there is a context
  string, one system message and then one user message for each context string, appended
  one after another as the loop does.
\<close>

definition context_header :: ChatCompletionMessage where
  "context_header =
     \<lparr>Role = ChatMessageRoleSystem,
      Content = ''The user has provided additional context that MUST be included in the commit message''\<rparr>"

definition run_messages :: "ChatCompletionMessage list \<Rightarrow> string list \<Rightarrow> ChatCompletionMessage list" where
  "run_messages msgs cs =
     (if length cs > 0
      then foldl (\<lambda>ms c. ms @ [\<lparr>Role = ChatMessageRoleUser, Content = c\<rparr>])
             (msgs @ [context_header]) cs
      else msgs)"

text \<open>
  The receive loop: it stops without error at \<open>io.EOF\<close> and at a response with no
  choice, returns any other error, and otherwise appends the content of the first choice to
  the buffer and prints it.
\<close>

fun run_recv_loop :: "recv list \<Rightarrow> string \<Rightarrow> string io" where
  "run_recv_loop [] msg = ([StreamRecv], Inr msg)"
| "run_recv_loop (Inl err # rest) msg =
     (if err = EOF then ([StreamRecv], Inr msg) else ([StreamRecv], Inl err))"
| "run_recv_loop (Inr [] # rest) msg = ([StreamRecv], Inr msg)"
| "run_recv_loop (Inr (c # cs) # rest) msg =
     (case run_recv_loop rest (msg @ c) of
        (tr, r) \<Rightarrow> (StreamRecv # PrettyStdout c # tr, r))"

text \<open>
  The commit: \<open>git commit -m msg\<close>, with \<open>--amend\<close> appended for an amend; printed and
  not run in a dry run, run otherwise.
\<close>

definition run_commit :: "world \<Rightarrow> runOptions \<Rightarrow> string \<Rightarrow> unit io" where
  "run_commit w opts msg =
     (let cmd0 = \<lparr>Path = exec_Path w, Args = [''git'', ''commit'', ''-m'', msg]\<rparr>;
          cmd = (if amend opts then cmd0\<lparr>Args := Args cmd0 @ [''--amend'']\<rparr> else cmd0)
      in if dryRun opts then
           (case formatShellCommand w cmd of
              None \<Rightarrow> ([Println ''Run the following command to commit:''],
                        Inl (Panic ''slice bounds out of range''))
            | Some s \<Rightarrow> ([Println ''Run the following command to commit:'', Println s], Inr ()))
         else
           ([GitRun (Args cmd)],
            case git_Run w (Args cmd) of None \<Rightarrow> Inr () | Some err \<Rightarrow> Inl err))"

text \<open>\<open>defer stream.Close()\<close>: the stream is closed when \<open>run\<close> returns.\<close>

definition deferred_Close :: "'a io \<Rightarrow> 'a io" where
  "deferred_Close m = (case m of (tr, r) \<Rightarrow> (tr @ [StreamClose], r))"

definition run_request :: "runOptions \<Rightarrow> ChatCompletionMessage list \<Rightarrow> ChatCompletionRequest" where
  "run_request opts msgs =
     \<lparr>Model = model opts, Stream = True, Temperature = 0, IncludeUsage = True,
      Messages = msgs\<rparr>"

definition run :: "world \<Rightarrow> runOptions \<Rightarrow> unit io" where
  "run w opts =
     bind_io ([Getwd], os_Getwd w) (\<lambda>workdir.
       if ref opts \<noteq> [] \<and> amend opts
       then ([], Inl (ErrorsNew ''cannot use both [ref] and --amend''))
       else
         bind_io (run_hash w opts) (\<lambda>hash.
         bind_io ([CallBuildPrompt workdir hash (amend opts) 128000],
                  BuildPrompt w workdir hash (amend opts) 128000) (\<lambda>msgs0.
         let msgs = run_messages msgs0 (context_strings opts) in
         bind_io ([CallCreateChatCompletionStream (run_request opts msgs)],
                  CreateChatCompletionStream w (run_request opts msgs)) (\<lambda>stream.
         deferred_Close
           (bind_io (run_recv_loop stream []) (\<lambda>msg.
            bind_io ([Println []], Inr ()) (\<lambda>u.
            run_commit w opts msg)))))))"

section \<open>Observations on what run did\<close>

text \<open>
  The requests handed to the chat client, the argument vectors of \<open>git\<close> started with
  \<open>cmd.Run()\<close> and with \<open>cmd.Output()\<close>, the budgets passed to \<open>BuildPrompt\<close>,
  and the texts that \<open>run\<close> itself writes to standard output (what \<open>BuildPrompt\<close>
  writes to the writer it is given belongs to its call), each in the order of the events.
\<close>

fun request_of :: "event \<Rightarrow> ChatCompletionRequest option" where
  "request_of (CallCreateChatCompletionStream req) = Some req"
| "request_of e = None"

fun git_run_of :: "event \<Rightarrow> string list option" where
  "git_run_of (GitRun args) = Some args"
| "git_run_of e = None"

fun git_output_of :: "event \<Rightarrow> string list option" where
  "git_output_of (GitOutput args) = Some args"
| "git_output_of e = None"

fun budget_of :: "event \<Rightarrow> int option" where
  "budget_of (CallBuildPrompt workdir hash am budget) = Some budget"
| "budget_of e = None"

fun stdout_of :: "event \<Rightarrow> string option" where
  "stdout_of (Stdout s) = Some s"
| "stdout_of (PrettyStdout s) = Some s"
| "stdout_of e = None"

definition requests :: "event list \<Rightarrow> ChatCompletionRequest list" where
  "requests tr = List.map_filter request_of tr"

definition git_runs :: "event list \<Rightarrow> string list list" where
  "git_runs tr = List.map_filter git_run_of tr"

definition git_outputs :: "event list \<Rightarrow> string list list" where
  "git_outputs tr = List.map_filter git_output_of tr"

definition prompt_budgets :: "event list \<Rightarrow> int list" where
  "prompt_budgets tr = List.map_filter budget_of tr"

definition stdouts :: "event list \<Rightarrow> string list" where
  "stdouts tr = List.map_filter stdout_of tr"

text \<open>
  The prompts that \<open>BuildPrompt\<close> returned to \<open>run\<close>: for each call in the events, the
  message list the world answers, when it answers one.
\<close>

fun prompt_of :: "world \<Rightarrow> event \<Rightarrow> ChatCompletionMessage list option" where
  "prompt_of w (CallBuildPrompt workdir hash am budget) =
     (case BuildPrompt w workdir hash am budget of Inl err \<Rightarrow> None | Inr msgs \<Rightarrow> Some msgs)"
| "prompt_of w e = None"

definition prompts_returned :: "world \<Rightarrow> event list \<Rightarrow> ChatCompletionMessage list list" where
  "prompts_returned w tr = List.map_filter (prompt_of w) tr"

text \<open>
  The order the specification asks of a message list: no system message comes after a user
  message.
\<close>

fun system_before_user :: "ChatCompletionMessage list \<Rightarrow> bool" where
  "system_before_user [] = True"
| "system_before_user (m # ms) =
     ((if Role m = ChatMessageRoleUser
       then list_all (\<lambda>m'. Role m' \<noteq> ChatMessageRoleSystem) ms else True)
      \<and> system_before_user ms)"

text \<open>The flags that \<open>main\<close> declares on the root command, by long name.\<close>

definition rootCmd_flags :: "string list" where
  "rootCmd_flags =
     [''model'', ''openai-key'', ''openai-base-url'', ''dry-run'', ''amend'', ''context'']"

section \<open>A concrete world\<close>

text \<open>
  Library functions for concrete runs. \<open>ascii_TrimSpace\<close> removes leading and trailing
  ASCII white space, as \<open>strings.TrimSpace\<close> does on ASCII text; \<open>unix_Base\<close> is
  \<open>filepath.Base\<close> with the separator \<open>/\<close>; \<open>posix_Quote\<close> is
  \<open>shellescape.Quote\<close>: the empty string and any string with a byte outside
  \<open>[A-Za-z0-9_@%+=:,./-]\<close> are put in single quotes.
\<close>

definition asciiSpace :: "char \<Rightarrow> bool" where
  "asciiSpace c = (c \<in> set [CHR 0x09, CHR 0x0A, CHR 0x0B, CHR 0x0C, CHR 0x0D, CHR 0x20])"

definition ascii_TrimSpace :: "string \<Rightarrow> string" where
  "ascii_TrimSpace s = rev (dropWhile asciiSpace (rev (dropWhile asciiSpace s)))"

definition unix_Base :: "string \<Rightarrow> string" where
  "unix_Base p =
     (if p = [] then ''.''
      else let p1 = rev (dropWhile (\<lambda>c. c = CHR ''/'') (rev p));
               p2 = rev (takeWhile (\<lambda>c. c \<noteq> CHR ''/'') (rev p1))
           in if p2 = [] then ''/'' else p2)"

definition quote_safe :: "char \<Rightarrow> bool" where
  "quote_safe c =
     (c \<in> set (''abcdefghijklmnopqrstuvwxyzABCDEFGHIJKLMNOPQRSTUVWXYZ0123456789''
               @ ''_@%+=:,./-''))"

definition posix_Quote :: "string \<Rightarrow> string" where
  "posix_Quote s =
     (if s = [] then [CHR 0x27, CHR 0x27]
      else if list_all quote_safe s then s
      else [CHR 0x27]
           @ concat (map (\<lambda>c. if c = CHR 0x27
                                then [CHR 0x27, CHR 0x22, CHR 0x27, CHR 0x22, CHR 0x27]
                                else [c]) s)
           @ [CHR 0x27])"

text \<open>
  A repository at \<open>/repo\<close> where \<open>HEAD\<close> and \<open>v1.0\<close> resolve and nothing else does,
  \<open>BuildPrompt\<close> answers one system message and one user message with the diff, and the
  model streams \<open>fix: typo\<close> in two pieces.
\<close>

definition example_prompt :: "ChatCompletionMessage list" where
  "example_prompt =
     [\<lparr>Role = ''system'', Content = ''Write a commit message for the diff.''\<rparr>,
      \<lparr>Role = ''user'', Content = ''diff --git a/a.txt b/a.txt''\<rparr>]"

definition example_world :: world where
  "example_world =
     \<lparr>os_Getwd = Inr ''/repo'',
      git_Output = (\<lambda>args.
         if args = [''rev-parse'', ''HEAD''] then Inr (''1a2b3c'' @ [CHR 0x0A])
         else if args = [''rev-parse'', ''v1.0''] then Inr (''4d5e6f'' @ [CHR 0x0A])
         else Inl (External ''exit status 128'')),
      git_Run = (\<lambda>args. None),
      BuildPrompt = (\<lambda>workdir hash am budget. Inr example_prompt),
      CreateChatCompletionStream = (\<lambda>req. Inr [Inr [''fix: ''], Inr [''typo''], Inl EOF]),
      exec_Path = ''/usr/bin/git'',
      strings_TrimSpace = ascii_TrimSpace,
      filepath_Base = unix_Base,
      shellescape_Quote = posix_Quote\<rparr>"

definition example_opts :: runOptions where
  "example_opts =
     \<lparr>openAIBaseURL = ''https://api.openai.com/v1'', model = ''gpt-4o-2024-08-06'',
      dryRun = False, amend = False, ref = [], context_strings = []\<rparr>"

text \<open>The same world with a model that answers inside a code fence.\<close>

definition fenced_reply :: "recv list" where
  "fenced_reply =
     [Inr [''```'' @ [CHR 0x0A]], Inr [''fix: typo'' @ [CHR 0x0A]], Inr [''```''], Inl EOF]"

section \<open>The budget for context strings, as the specification has it\<close>

text \<open>
  Modelled from the spec: the Token Estimator (section 4.2) is not in the sources and
  \<open>run\<close> calls none. The specification allows a heuristic proportional to the character
  count; \<open>byte_estimate\<close> counts one token for each byte, \<open>quarter_estimate\<close> one token
  for every four bytes, rounded up.
\<close>

definition byte_estimate :: "string \<Rightarrow> nat" where
  "byte_estimate s = length s"

definition quarter_estimate :: "string \<Rightarrow> nat" where
  "quarter_estimate s = (length s + 3) div 4"

text \<open>The total estimated cost of a message list under an estimator.\<close>

definition prompt_cost :: "(string \<Rightarrow> nat) \<Rightarrow> ChatCompletionMessage list \<Rightarrow> nat" where
  "prompt_cost est msgs = sum_list (map (\<lambda>m. est (Content m)) msgs)"

text \<open>
  Modelled from the spec: step 4 of the Prompt Compiler (section 4.3), which \<open>run\<close> does
  not have. Each context string, in turn, is appended as a user message when the prompt with
  it stays within the budget, and is otherwise dropped whole and recorded in a warning. The
  result is the prompt and the strings dropped.
\<close>

fun spec_append_context ::
  "(string \<Rightarrow> nat) \<Rightarrow> nat \<Rightarrow> ChatCompletionMessage list \<Rightarrow> string list
     \<Rightarrow> ChatCompletionMessage list \<times> string list" where
  "spec_append_context est budget msgs [] = (msgs, [])"
| "spec_append_context est budget msgs (c # cs) =
     (if prompt_cost est msgs + est c \<le> budget
      then spec_append_context est budget (msgs @ [\<lparr>Role = ChatMessageRoleUser, Content = c\<rparr>]) cs
      else (case spec_append_context est budget msgs cs of
              (ms, dropped) \<Rightarrow> (ms, c # dropped)))"

text \<open>
  A context string of 300000 words and 600000 bytes, which is more than the budget of 128000
  tokens under either estimator.
\<close>

definition long_hint :: string where
  "long_hint = concat (replicate 300000 ''x '')"

section \<open>Lemmas on the model\<close>

lemma map_filter_append:
  "List.map_filter f (xs @ ys) = List.map_filter f xs @ List.map_filter f ys"
  by (simp add: List.map_filter_def)

lemma map_filter_none:
  "(\<And>e. e \<in> set tr \<Longrightarrow> f e = None) \<Longrightarrow> List.map_filter f tr = []"
  by (induction tr) (simp_all add: map_filter_simps)

lemmas observation_defs =
  requests_def git_runs_def git_outputs_def prompt_budgets_def stdouts_def prompts_returned_def

lemma foldl_snoc_map:
  "foldl (\<lambda>ms c. ms @ [g c]) acc cs = acc @ map g cs"
  by (induction cs arbitrary: acc) simp_all

lemma run_messages_eq:
  "run_messages msgs cs =
     (if cs = [] then msgs
      else msgs @ context_header # map (\<lambda>c. \<lparr>Role = ChatMessageRoleUser, Content = c\<rparr>) cs)"
  by (simp add: run_messages_def foldl_snoc_map)

lemma foldl_quote_concat:
  "foldl (\<lambda>buf arg. buf @ sep @ q arg) acc xs = acc @ concat (map (\<lambda>arg. sep @ q arg) xs)"
  by (induction xs arbitrary: acc) simp_all

lemma formatShellCommand_eq:
  "formatShellCommand w \<lparr>Path = p, Args = a0 # args\<rparr> =
     Some (filepath_Base w p @ concat (map (\<lambda>arg. '' '' @ shellescape_Quote w arg) args))"
  using foldl_quote_concat [of "'' ''" "shellescape_Quote w" "filepath_Base w p" args]
  by (simp add: formatShellCommand_def)

lemma recv_loop_events:
  "e \<in> set (fst (run_recv_loop s m)) \<Longrightarrow> e = StreamRecv \<or> (\<exists>c. e = PrettyStdout c)"
  by (induction s m rule: run_recv_loop.induct) (auto split: prod.splits if_splits)

lemma recv_loop_silent:
  assumes "f StreamRecv = None" and "\<And>c. f (PrettyStdout c) = None"
  shows "List.map_filter f (fst (run_recv_loop s m)) = []"
  using assms recv_loop_events by (intro map_filter_none) fastforce

lemma run_hash_events:
  "fst (run_hash w opts) =
     (if amend opts then [GitOutput [''rev-parse'', ''HEAD'']]
      else if ref opts \<noteq> [] then [GitOutput [''rev-parse'', ref opts]]
      else [])"
  by (simp add: run_hash_def getLastCommitHash_def resolveRef_def bind_io_def
           split: sum.splits prod.splits)

lemma run_commit_dry:
  "dryRun opts \<Longrightarrow>
   run_commit w opts msg =
     ([Println ''Run the following command to commit:'',
       Println (filepath_Base w (exec_Path w) @ '' '' @ shellescape_Quote w ''commit''
                @ '' '' @ shellescape_Quote w ''-m'' @ '' '' @ shellescape_Quote w msg
                @ (if amend opts then '' '' @ shellescape_Quote w ''--amend'' else []))],
      Inr ())"
  by (simp add: run_commit_def formatShellCommand_def Let_def)

lemma run_commit_wet:
  "\<not> dryRun opts \<Longrightarrow>
   run_commit w opts msg =
     (let args = [''git'', ''commit'', ''-m'', msg] @ (if amend opts then [''--amend''] else [])
      in ([GitRun args], case git_Run w args of None \<Rightarrow> Inr () | Some err \<Rightarrow> Inl err))"
  by (simp add: run_commit_def Let_def)

lemma run_unfold:
  "run w opts =
     (case os_Getwd w of
        Inl err \<Rightarrow> ([Getwd], Inl err)
      | Inr workdir \<Rightarrow>
          if ref opts \<noteq> [] \<and> amend opts
          then ([Getwd], Inl (ErrorsNew ''cannot use both [ref] and --amend''))
          else
            (case snd (run_hash w opts) of
               Inl err \<Rightarrow> (Getwd # fst (run_hash w opts), Inl err)
             | Inr hash \<Rightarrow>
                 (case BuildPrompt w workdir hash (amend opts) 128000 of
                    Inl err \<Rightarrow>
                      (Getwd # fst (run_hash w opts)
                         @ [CallBuildPrompt workdir hash (amend opts) 128000], Inl err)
                  | Inr msgs0 \<Rightarrow>
                      (let req = run_request opts (run_messages msgs0 (context_strings opts));
                           pre = Getwd # fst (run_hash w opts)
                                   @ [CallBuildPrompt workdir hash (amend opts) 128000,
                                      CallCreateChatCompletionStream req]
                       in case CreateChatCompletionStream w req of
                            Inl err \<Rightarrow> (pre, Inl err)
                          | Inr stream \<Rightarrow>
                              (case snd (run_recv_loop stream []) of
                                 Inl err \<Rightarrow>
                                   (pre @ fst (run_recv_loop stream []) @ [StreamClose], Inl err)
                               | Inr msg \<Rightarrow>
                                   (pre @ fst (run_recv_loop stream []) @ [Println []]
                                      @ fst (run_commit w opts msg) @ [StreamClose],
                                    snd (run_commit w opts msg)))))))"
proof (cases "os_Getwd w")
  case (Inl err)
  then show ?thesis by (simp add: run_def bind_io_def)
next
  case wd: (Inr workdir)
  show ?thesis
  proof (cases "ref opts \<noteq> [] \<and> amend opts")
    case True
    with wd show ?thesis by (simp add: run_def bind_io_def)
  next
    case ok: False
    obtain tr1 r1 where h: "run_hash w opts = (tr1, r1)"
      by (cases "run_hash w opts")
    show ?thesis
    proof (cases r1)
      case (Inl err)
      with wd ok h show ?thesis by (auto simp: run_def bind_io_def)
    next
      case hash: (Inr hash)
      show ?thesis
      proof (cases "BuildPrompt w workdir hash (amend opts) 128000")
        case (Inl err)
        with wd ok h hash show ?thesis by (auto simp: run_def bind_io_def)
      next
        case prompt: (Inr msgs0)
        show ?thesis
        proof (cases "CreateChatCompletionStream w
                        (run_request opts (run_messages msgs0 (context_strings opts)))")
          case (Inl err)
          with wd ok h hash prompt show ?thesis
            by (auto simp: run_def bind_io_def Let_def)
        next
          case stream: (Inr stream)
          obtain tr2 r2 where l: "run_recv_loop stream [] = (tr2, r2)"
            by (cases "run_recv_loop stream []")
          show ?thesis
          proof (cases r2)
            case (Inl err)
            with wd ok h hash prompt stream l show ?thesis
              by (auto simp: run_def bind_io_def Let_def deferred_Close_def)
          next
            case msg: (Inr msg)
            obtain tr3 r3 where c: "run_commit w opts msg = (tr3, r3)"
              by (cases "run_commit w opts msg")
            with wd ok h hash prompt stream l msg show ?thesis
              by (auto simp: run_def bind_io_def Let_def deferred_Close_def)
          qed
        qed
      qed
    qed
  qed
qed


lemma recv_loop_quiet:
  "List.map_filter request_of (fst (run_recv_loop s m)) = []"
  "List.map_filter git_run_of (fst (run_recv_loop s m)) = []"
  "List.map_filter git_output_of (fst (run_recv_loop s m)) = []"
  "List.map_filter budget_of (fst (run_recv_loop s m)) = []"
  "List.map_filter (prompt_of w) (fst (run_recv_loop s m)) = []"
  by (simp_all add: recv_loop_silent)

lemma run_commit_quiet:
  "List.map_filter request_of (fst (run_commit w opts msg)) = []"
  "List.map_filter git_output_of (fst (run_commit w opts msg)) = []"
  "List.map_filter budget_of (fst (run_commit w opts msg)) = []"
  "List.map_filter (prompt_of w') (fst (run_commit w opts msg)) = []"
  by (cases "dryRun opts";
      simp add: run_commit_dry run_commit_wet Println_def map_filter_simps Let_def)+

lemma run_hash_quiet:
  "List.map_filter request_of (fst (run_hash w opts)) = []"
  "List.map_filter git_run_of (fst (run_hash w opts)) = []"
  "List.map_filter budget_of (fst (run_hash w opts)) = []"
  "List.map_filter (prompt_of w') (fst (run_hash w opts)) = []"
  "List.map_filter stdout_of (fst (run_hash w opts)) = []"
  by (simp_all add: run_hash_events map_filter_simps)

lemmas quiet = recv_loop_quiet run_commit_quiet run_hash_quiet map_filter_append map_filter_simps

lemmas example_defs =
  example_world_def example_opts_def example_prompt_def fenced_reply_def
  run_hash_def getLastCommitHash_def resolveRef_def bind_io_def
  run_messages_def context_header_def run_request_def run_commit_def formatShellCommand_def
  Println_def ChatMessageRoleSystem_def ChatMessageRoleUser_def
  ascii_TrimSpace_def asciiSpace_def unix_Base_def posix_Quote_def quote_safe_def Let_def
  observation_defs map_filter_simps

lemma length_concat_replicate:
  "length (concat (replicate n s)) = n * length s"
  by (induction n) simp_all

lemma length_long_hint: "length long_hint = 600000"
  unfolding long_hint_def length_concat_replicate by simp

lemma run_requests:
  assumes "os_Getwd w = Inr workdir" and "\<not> (ref opts \<noteq> [] \<and> amend opts)"
      and "snd (run_hash w opts) = Inr hash"
      and "BuildPrompt w workdir hash (amend opts) 128000 = Inr msgs0"
  shows "requests (fst (run w opts)) =
           [run_request opts (run_messages msgs0 (context_strings opts))]"
  using assms
  by (auto simp: run_unfold observation_defs quiet Let_def Println_def split: sum.splits)

section \<open>Context strings and the budget\<close>

text \<open>
  Claim C2, as amended. \<open>run\<close> makes one request, and its messages are the messages of
  \<open>BuildPrompt\<close>, then (when there is a context string) the announcing message, then one
  user message for each context string of the caller, whole and in the order given. This holds
  whatever the budget and whatever \<open>BuildPrompt\<close> returned: no context string is dropped
  or cut to fit, and under every estimator the cost of the request is the cost of the messages
  of \<open>BuildPrompt\<close> plus the full cost of the announcing message and of every context
  string. (\<open>BuildPrompt\<close> is not given the context strings, so it cannot count them against
  its budget.)
\<close>

theorem every_context_string_is_sent_whole:
  assumes "os_Getwd w = Inr workdir" and "\<not> (ref opts \<noteq> [] \<and> amend opts)"
      and "snd (run_hash w opts) = Inr hash"
      and "BuildPrompt w workdir hash (amend opts) 128000 = Inr msgs0"
  shows "\<exists>req. requests (fst (run w opts)) = [req] \<and>
           take (length msgs0) (Messages req) = msgs0 \<and>
           (context_strings opts \<noteq> [] \<longrightarrow>
              take 1 (drop (length msgs0) (Messages req)) = [context_header]) \<and>
           drop (Suc (length msgs0)) (Messages req) =
             map (\<lambda>c. \<lparr>Role = ChatMessageRoleUser, Content = c\<rparr>) (context_strings opts) \<and>
           length (Messages req) =
             length msgs0 +
             (if context_strings opts = [] then 0 else Suc (length (context_strings opts))) \<and>
           prompt_cost est (Messages req) =
             prompt_cost est msgs0 +
             (if context_strings opts = [] then 0
              else est (Content context_header) + sum_list (map est (context_strings opts)))"
  using run_requests [OF assms]
  by (simp add: run_request_def run_messages_eq prompt_cost_def comp_def)

text \<open>
  Witness: two context strings in the example world, with one token for each byte.
\<close>

theorem every_context_string_is_sent_whole_witness:
  "os_Getwd example_world = Inr ''/repo'' \<and>
   \<not> (ref (example_opts\<lparr>context_strings := [''closes #12'', ''no behaviour change'']\<rparr>) \<noteq> [] \<and>
      amend (example_opts\<lparr>context_strings := [''closes #12'', ''no behaviour change'']\<rparr>)) \<and>
   snd (run_hash example_world
          (example_opts\<lparr>context_strings := [''closes #12'', ''no behaviour change'']\<rparr>)) = Inr [] \<and>
   BuildPrompt example_world ''/repo'' []
     (amend (example_opts\<lparr>context_strings := [''closes #12'', ''no behaviour change'']\<rparr>)) 128000
     = Inr example_prompt \<and>
   (\<exists>req. requests (fst (run example_world
             (example_opts\<lparr>context_strings := [''closes #12'', ''no behaviour change'']\<rparr>))) = [req] \<and>
      take 2 (Messages req) = example_prompt \<and>
      take 1 (drop 2 (Messages req)) = [context_header] \<and>
      drop 3 (Messages req) =
        [\<lparr>Role = ''user'', Content = ''closes #12''\<rparr>,
         \<lparr>Role = ''user'', Content = ''no behaviour change''\<rparr>] \<and>
      length (Messages req) = 5 \<and>
      prompt_cost byte_estimate (Messages req) = prompt_cost byte_estimate example_prompt + 113)"
proof -
  let ?o = "example_opts\<lparr>context_strings := [''closes #12'', ''no behaviour change'']\<rparr>"
  have a: "os_Getwd example_world = Inr ''/repo''" by (simp add: example_world_def)
  have b: "\<not> (ref ?o \<noteq> [] \<and> amend ?o)" by (simp add: example_opts_def)
  have c: "snd (run_hash example_world ?o) = Inr []"
    by (simp add: run_hash_def example_opts_def)
  have d: "BuildPrompt example_world ''/repo'' [] (amend ?o) 128000 = Inr example_prompt"
    by (simp add: example_world_def)
  from every_context_string_is_sent_whole [OF a b c d, of byte_estimate]
  obtain req where r: "requests (fst (run example_world ?o)) = [req]"
      "take (length example_prompt) (Messages req) = example_prompt"
      "context_strings ?o \<noteq> [] \<longrightarrow>
         take 1 (drop (length example_prompt) (Messages req)) = [context_header]"
      "drop (Suc (length example_prompt)) (Messages req) =
         map (\<lambda>c. \<lparr>Role = ChatMessageRoleUser, Content = c\<rparr>) (context_strings ?o)"
      "length (Messages req) =
         length example_prompt +
         (if context_strings ?o = [] then 0 else Suc (length (context_strings ?o)))"
      "prompt_cost byte_estimate (Messages req) =
         prompt_cost byte_estimate example_prompt +
         (if context_strings ?o = [] then 0
          else byte_estimate (Content context_header)
               + sum_list (map byte_estimate (context_strings ?o)))"
    by blast
  have l: "length example_prompt = 2" by (simp add: example_prompt_def)
  from r l have "requests (fst (run example_world ?o)) = [req] \<and>
      take 2 (Messages req) = example_prompt \<and>
      take 1 (drop 2 (Messages req)) = [context_header] \<and>
      drop 3 (Messages req) =
        [\<lparr>Role = ''user'', Content = ''closes #12''\<rparr>,
         \<lparr>Role = ''user'', Content = ''no behaviour change''\<rparr>] \<and>
      length (Messages req) = 5 \<and>
      prompt_cost byte_estimate (Messages req) = prompt_cost byte_estimate example_prompt + 113"
    by (simp add: example_opts_def ChatMessageRoleUser_def byte_estimate_def
          context_header_def numeral_3_eq_3)
  then have "\<exists>req. requests (fst (run example_world ?o)) = [req] \<and>
      take 2 (Messages req) = example_prompt \<and>
      take 1 (drop 2 (Messages req)) = [context_header] \<and>
      drop 3 (Messages req) =
        [\<lparr>Role = ''user'', Content = ''closes #12''\<rparr>,
         \<lparr>Role = ''user'', Content = ''no behaviour change''\<rparr>] \<and>
      length (Messages req) = 5 \<and>
      prompt_cost byte_estimate (Messages req) = prompt_cost byte_estimate example_prompt + 113"
    by blast
  with a b c d show ?thesis by blast
qed

text \<open>
  Claim C2 as stated fails. Of the three context strings below the first two fit the budget
  of 128000 with the prompt (even with the announcing message counted), and the third does
  not fit, being larger than the whole budget under either estimator: the specification's
  step keeps two context messages and records the third as dropped. \<open>run\<close> sends all
  three, the third whole, writes nothing but the reply of the model to standard output and
  returns no error: nothing is dropped and no warning is given.
\<close>

theorem third_context_string_not_dropped_counterexample:
  "prompt_cost byte_estimate
     (example_prompt @
      [context_header, \<lparr>Role = ''user'', Content = ''first''\<rparr>,
       \<lparr>Role = ''user'', Content = ''second''\<rparr>]) \<le> 128000 \<and>
   128000 < byte_estimate long_hint \<and> 128000 < quarter_estimate long_hint \<and>
   spec_append_context byte_estimate 128000 example_prompt [''first'', ''second'', long_hint]
     = (example_prompt @
        [\<lparr>Role = ''user'', Content = ''first''\<rparr>, \<lparr>Role = ''user'', Content = ''second''\<rparr>],
        [long_hint]) \<and>
   spec_append_context quarter_estimate 128000 example_prompt [''first'', ''second'', long_hint]
     = (example_prompt @
        [\<lparr>Role = ''user'', Content = ''first''\<rparr>, \<lparr>Role = ''user'', Content = ''second''\<rparr>],
        [long_hint]) \<and>
   map Messages (requests (fst (run example_world
      (example_opts\<lparr>context_strings := [''first'', ''second'', long_hint]\<rparr>))))
     = [example_prompt @
        [context_header,
         \<lparr>Role = ''user'', Content = ''first''\<rparr>,
         \<lparr>Role = ''user'', Content = ''second''\<rparr>,
         \<lparr>Role = ''user'', Content = long_hint\<rparr>]] \<and>
   stdouts (fst (run example_world
      (example_opts\<lparr>context_strings := [''first'', ''second'', long_hint]\<rparr>)))
     = [''fix: '', ''typo'', [CHR 0x0A]] \<and>
   snd (run example_world
      (example_opts\<lparr>context_strings := [''first'', ''second'', long_hint]\<rparr>)) = Inr ()"
  by (simp add: run_def example_defs deferred_Close_def prompt_cost_def byte_estimate_def
        quarter_estimate_def length_long_hint)

section \<open>The order of the messages\<close>

text \<open>
  Claim C3, as amended. The messages sent are those of \<open>BuildPrompt\<close>, which carry the
  diff, followed, when there is a context string, by one system message that announces the
  context and then by one user message for each context string, in the order given. So every
  context string is a separate user message after the diff content; the system message that
  announces them comes after the messages of \<open>BuildPrompt\<close>, not before them.
\<close>

theorem context_messages_follow_the_prompt:
  assumes "os_Getwd w = Inr workdir" and "\<not> (ref opts \<noteq> [] \<and> amend opts)"
      and "snd (run_hash w opts) = Inr hash"
      and "BuildPrompt w workdir hash (amend opts) 128000 = Inr msgs0"
  shows "map Messages (requests (fst (run w opts))) =
           [msgs0 @
            (if context_strings opts = [] then []
             else \<lparr>Role = ChatMessageRoleSystem,
                   Content = ''The user has provided additional context that MUST be included in the commit message''\<rparr>
                  # map (\<lambda>c. \<lparr>Role = ChatMessageRoleUser, Content = c\<rparr>) (context_strings opts))]"
  using run_requests [OF assms]
  by (simp add: run_request_def run_messages_eq context_header_def)

text \<open>
  Witness: one context string in the example world.
\<close>

theorem context_messages_follow_the_prompt_witness:
  "os_Getwd example_world = Inr ''/repo'' \<and>
   \<not> (ref (example_opts\<lparr>context_strings := [''closes #12'']\<rparr>) \<noteq> [] \<and>
      amend (example_opts\<lparr>context_strings := [''closes #12'']\<rparr>)) \<and>
   snd (run_hash example_world (example_opts\<lparr>context_strings := [''closes #12'']\<rparr>)) = Inr [] \<and>
   BuildPrompt example_world ''/repo'' []
     (amend (example_opts\<lparr>context_strings := [''closes #12'']\<rparr>)) 128000 = Inr example_prompt \<and>
   map Messages (requests (fst (run example_world
      (example_opts\<lparr>context_strings := [''closes #12'']\<rparr>))))
     = [example_prompt @
        [\<lparr>Role = ''system'',
          Content = ''The user has provided additional context that MUST be included in the commit message''\<rparr>,
         \<lparr>Role = ''user'', Content = ''closes #12''\<rparr>]]"
proof -
  let ?o = "example_opts\<lparr>context_strings := [''closes #12'']\<rparr>"
  have a: "os_Getwd example_world = Inr ''/repo''" by (simp add: example_world_def)
  have b: "\<not> (ref ?o \<noteq> [] \<and> amend ?o)" by (simp add: example_opts_def)
  have c: "snd (run_hash example_world ?o) = Inr []"
    by (simp add: run_hash_def example_opts_def)
  have d: "BuildPrompt example_world ''/repo'' [] (amend ?o) 128000 = Inr example_prompt"
    by (simp add: example_world_def)
  from a b c d context_messages_follow_the_prompt [OF a b c d] show ?thesis
    by (simp add: example_opts_def ChatMessageRoleSystem_def ChatMessageRoleUser_def)
qed

text \<open>
  Claim C3 as stated fails: the prompt of the example world has its system message before
  its user message, and with one context string the list sent has a system message after a
  user message.
\<close>

theorem system_message_after_user_counterexample:
  "system_before_user example_prompt \<and>
   map (\<lambda>req. system_before_user (Messages req))
     (requests (fst (run example_world (example_opts\<lparr>context_strings := [''closes #12'']\<rparr>))))
     = [False]"
  by (simp add: run_def example_defs deferred_Close_def)

section \<open>Failures stop run before the network\<close>

text \<open>
  Claim C4. Whenever the core fails (the hash of the target cannot be obtained, or
  \<open>BuildPrompt\<close> returns an error), \<open>run\<close> returns an error and has made no request
  to the chat client, and has not started \<open>git commit\<close> either.
\<close>

theorem core_failure_stops_before_network:
  assumes "snd (run_hash w opts) = Inl err \<or>
           (\<exists>workdir hash. os_Getwd w = Inr workdir \<and> snd (run_hash w opts) = Inr hash \<and>
              BuildPrompt w workdir hash (amend opts) 128000 = Inl err)"
  shows "requests (fst (run w opts)) = [] \<and> git_runs (fst (run w opts)) = [] \<and>
         (\<exists>e. snd (run w opts) = Inl e)"
  using assms
  by (auto simp: run_unfold observation_defs quiet split: sum.splits)

text \<open>The reference \<open>nosuch\<close> does not resolve in the example world.\<close>

theorem core_failure_stops_before_network_witness:
  "snd (run_hash example_world (example_opts\<lparr>ref := ''nosuch''\<rparr>))
     = Inl (ErrorfResolveRef ''nosuch'' (External ''exit status 128'')) \<and>
   requests (fst (run example_world (example_opts\<lparr>ref := ''nosuch''\<rparr>))) = [] \<and>
   git_runs (fst (run example_world (example_opts\<lparr>ref := ''nosuch''\<rparr>))) = [] \<and>
   (\<exists>e. snd (run example_world (example_opts\<lparr>ref := ''nosuch''\<rparr>)) = Inl e)"
proof -
  have h: "snd (run_hash example_world (example_opts\<lparr>ref := ''nosuch''\<rparr>))
             = Inl (ErrorfResolveRef ''nosuch'' (External ''exit status 128''))"
    by (simp add: example_defs)
  from h core_failure_stops_before_network [OF disjI1 [OF h]] show ?thesis
    by (rule conjI)
qed

section \<open>The text of the commit message\<close>

text \<open>
  Claim C5. The commit message is the text received from the model as it is:
  \<open>run\<close> passes the buffer to \<open>git commit -m\<close> and never calls
  \<open>cleanAIMessage\<close>. For a reply inside a code fence the fence is committed, where
  \<open>cleanAIMessage\<close> gives the text without fence and surrounding white space.
\<close>

theorem fenced_reply_is_committed_verbatim:
  "git_runs (fst (run (example_world\<lparr>CreateChatCompletionStream := (\<lambda>req. Inr fenced_reply)\<rparr>)
                    example_opts))
     = [[''git'', ''commit'', ''-m'',
         ''```'' @ [CHR 0x0A] @ ''fix: typo'' @ [CHR 0x0A] @ ''```'']] \<and>
   cleanAIMessage example_world (''```'' @ [CHR 0x0A] @ ''fix: typo'' @ [CHR 0x0A] @ ''```'')
     = ''fix: typo''"
  by (simp add: run_def example_defs deferred_Close_def cleanAIMessage_def
        HasPrefix_def HasSuffix_def TrimPrefix_def TrimSuffix_def)

section \<open>The budget passed to BuildPrompt\<close>

text \<open>
  Claim C6, as amended. Whenever \<open>run\<close> calls \<open>BuildPrompt\<close> (the working
  directory is read, a reference and the amend flag are not both given, and the hash is
  obtained), it does so once, and the budget it passes is the constant 128000; otherwise
  \<open>BuildPrompt\<close> is not called. The budget depends on no option of the caller.
\<close>

theorem budget_is_the_constant_128000:
  "prompt_budgets (fst (run w opts)) =
     (if \<not> isl (os_Getwd w) \<and> \<not> (ref opts \<noteq> [] \<and> amend opts) \<and> \<not> isl (snd (run_hash w opts))
      then [128000] else [])"
  by (auto simp: run_unfold observation_defs quiet Let_def Println_def split: sum.splits)

text \<open>
  The example world with its default options.
\<close>

theorem budget_is_the_constant_128000_witness:
  "prompt_budgets (fst (run example_world example_opts)) = [128000]"
  using budget_is_the_constant_128000 [of example_world example_opts]
  by (simp add: example_world_def example_opts_def run_hash_def)

text \<open>
  Claim C6 as stated fails: three invocations that differ in every option a caller can set
  pass the same budget, and the root command declares no flag for it.
\<close>

theorem budget_not_caller_supplied_counterexample:
  "prompt_budgets (fst (run example_world example_opts)) = [128000] \<and>
   prompt_budgets (fst (run example_world
      \<lparr>openAIBaseURL = ''http://localhost:8080/v1'', model = ''gpt-4o-mini'', dryRun = True,
       amend = True, ref = [], context_strings = [''keep it short'']\<rparr>)) = [128000] \<and>
   prompt_budgets (fst (run example_world
      \<lparr>openAIBaseURL = [], model = [], dryRun = False,
       amend = False, ref = ''v1.0'', context_strings = []\<rparr>)) = [128000] \<and>
   ''budget'' \<notin> set rootCmd_flags"
  by (simp add: run_def example_defs deferred_Close_def rootCmd_flags_def)

section \<open>A reference that does not resolve\<close>

text \<open>
  Claim C7, as amended. When a reference is given without the amend flag, the working
  directory is read and \<open>git rev-parse\<close> fails on the reference with error \<open>err\<close>,
  then \<open>resolveRef\<close> returns \<open>err\<close> as it is, and \<open>run\<close> returns, after these
  two steps only, the error made by \<open>fmt.Errorf("resolve ref %q: %w", ref, err)\<close>, which
  wraps \<open>err\<close>.
\<close>

theorem unresolved_ref_error_is_wrapped:
  assumes "git_Output w [''rev-parse'', ref opts] = Inl err"
      and "ref opts \<noteq> []" and "\<not> amend opts" and "os_Getwd w = Inr workdir"
  shows "snd (resolveRef w (ref opts)) = Inl err \<and>
         run w opts =
           ([Getwd, GitOutput [''rev-parse'', ref opts]], Inl (ErrorfResolveRef (ref opts) err)) \<and>
         Unwrap (ErrorfResolveRef (ref opts) err) = Some err"
  using assms
  by (simp add: run_unfold run_hash_def resolveRef_def bind_io_def)

text \<open>
  Witness: the reference \<open>nosuch\<close> in the example world.
\<close>

theorem unresolved_ref_error_is_wrapped_witness:
  "git_Output example_world [''rev-parse'', ref (example_opts\<lparr>ref := ''nosuch''\<rparr>)]
     = Inl (External ''exit status 128'') \<and>
   ref (example_opts\<lparr>ref := ''nosuch''\<rparr>) \<noteq> [] \<and>
   \<not> amend (example_opts\<lparr>ref := ''nosuch''\<rparr>) \<and>
   os_Getwd example_world = Inr ''/repo'' \<and>
   snd (resolveRef example_world ''nosuch'') = Inl (External ''exit status 128'') \<and>
   run example_world (example_opts\<lparr>ref := ''nosuch''\<rparr>) =
     ([Getwd, GitOutput [''rev-parse'', ''nosuch'']],
      Inl (ErrorfResolveRef ''nosuch'' (External ''exit status 128'')))"
proof -
  let ?o = "example_opts\<lparr>ref := ''nosuch''\<rparr>"
  have a: "git_Output example_world [''rev-parse'', ref ?o] = Inl (External ''exit status 128'')"
    by (simp add: example_world_def example_opts_def)
  have b: "ref ?o \<noteq> []" by (simp add: example_opts_def)
  have c: "\<not> amend ?o" by (simp add: example_opts_def)
  have d: "os_Getwd example_world = Inr ''/repo''" by (simp add: example_world_def)
  from a b c d unresolved_ref_error_is_wrapped [OF a b c d] show ?thesis
    by (simp add: example_opts_def)
qed

text \<open>
  Claim C7 as stated fails: the error that \<open>run\<close> returns is not the error of
  \<open>resolveRef\<close> unchanged.
\<close>

theorem unresolved_ref_not_unchanged_counterexample:
  "snd (resolveRef example_world ''nosuch'') = Inl (External ''exit status 128'') \<and>
   snd (run example_world (example_opts\<lparr>ref := ''nosuch''\<rparr>))
     = Inl (ErrorfResolveRef ''nosuch'' (External ''exit status 128'')) \<and>
   snd (run example_world (example_opts\<lparr>ref := ''nosuch''\<rparr>))
     \<noteq> Inl (External ''exit status 128'')"
  by (simp add: run_def example_defs)

section \<open>A reference together with --amend\<close>

text \<open>
  Claim C8, as amended. When both a reference and the amend flag are given, \<open>run\<close> does
  nothing but read the working directory, and returns an error: the error of
  \<open>os.Getwd\<close> when that fails, and otherwise "cannot use both [ref] and --amend". No
  reference is resolved, \<open>BuildPrompt\<close> is not called and no request is made.
\<close>

theorem ref_with_amend_rejected:
  assumes "ref opts \<noteq> []" and "amend opts"
  shows "run w opts =
           ([Getwd],
            Inl (case os_Getwd w of
                   Inl err \<Rightarrow> err
                 | Inr workdir \<Rightarrow> ErrorsNew ''cannot use both [ref] and --amend''))"
  using assms by (simp add: run_unfold split: sum.splits)

text \<open>Witness: the reference \<open>v1.0\<close> with the amend flag in the example world.\<close>

theorem ref_with_amend_rejected_witness:
  "ref (example_opts\<lparr>ref := ''v1.0'', amend := True\<rparr>) \<noteq> [] \<and>
   amend (example_opts\<lparr>ref := ''v1.0'', amend := True\<rparr>) \<and>
   run example_world (example_opts\<lparr>ref := ''v1.0'', amend := True\<rparr>)
     = ([Getwd], Inl (ErrorsNew ''cannot use both [ref] and --amend''))"
  using ref_with_amend_rejected [of "example_opts\<lparr>ref := ''v1.0'', amend := True\<rparr>" example_world]
  by (simp add: example_world_def example_opts_def)

text \<open>
  Claim C8 as stated fails where the working directory cannot be read: \<open>run\<close> returns
  the error of \<open>os.Getwd\<close>, which it checks first.
\<close>

theorem ref_with_amend_getwd_counterexample:
  "ref (example_opts\<lparr>ref := ''v1.0'', amend := True\<rparr>) \<noteq> [] \<and>
   amend (example_opts\<lparr>ref := ''v1.0'', amend := True\<rparr>) \<and>
   snd (run (example_world\<lparr>os_Getwd := Inl (External ''getwd: no such file or directory'')\<rparr>)
          (example_opts\<lparr>ref := ''v1.0'', amend := True\<rparr>))
     \<noteq> Inl (ErrorsNew ''cannot use both [ref] and --amend'')"
  by (simp add: run_def example_defs)

section \<open>The dry run\<close>

text \<open>
  Claim C9, as amended. With the dry-run flag, \<open>run\<close> never starts \<open>git commit\<close>.
  When every earlier step succeeds (the working directory is read, a reference and the amend
  flag are not both given, the hash is obtained, \<open>BuildPrompt\<close> and the chat client
  answer, and the stream ends without error with the text \<open>msg\<close>), \<open>run\<close> returns nil
  and writes, after the reply of the model and a newline, the line "Run the following command
  to commit:" and the command: the base name of the path of \<open>git\<close> and each further
  argument quoted by \<open>shellescape.Quote\<close>.
\<close>

theorem dry_run_never_commits:
  assumes "dryRun opts"
  shows "git_runs (fst (run w opts)) = [] \<and>
         (\<forall>workdir hash msgs0 stream msg.
            os_Getwd w = Inr workdir \<and> \<not> (ref opts \<noteq> [] \<and> amend opts) \<and>
            snd (run_hash w opts) = Inr hash \<and>
            BuildPrompt w workdir hash (amend opts) 128000 = Inr msgs0 \<and>
            CreateChatCompletionStream w
              (run_request opts (run_messages msgs0 (context_strings opts))) = Inr stream \<and>
            snd (run_recv_loop stream []) = Inr msg
            \<longrightarrow>
            snd (run w opts) = Inr () \<and>
            stdouts (fst (run w opts)) =
              stdouts (fst (run_recv_loop stream []))
              @ [[CHR 0x0A],
                 ''Run the following command to commit:'' @ [CHR 0x0A],
                 filepath_Base w (exec_Path w) @ '' '' @ shellescape_Quote w ''commit''
                   @ '' '' @ shellescape_Quote w ''-m'' @ '' '' @ shellescape_Quote w msg
                   @ (if amend opts then '' '' @ shellescape_Quote w ''--amend'' else [])
                   @ [CHR 0x0A]])"
proof (intro conjI allI impI)
  show "git_runs (fst (run w opts)) = []"
    using assms
    by (simp add: run_unfold observation_defs quiet run_commit_dry Println_def Let_def
             split: sum.splits)
next
  fix workdir hash msgs0 stream msg
  assume h: "os_Getwd w = Inr workdir \<and> \<not> (ref opts \<noteq> [] \<and> amend opts) \<and>
            snd (run_hash w opts) = Inr hash \<and>
            BuildPrompt w workdir hash (amend opts) 128000 = Inr msgs0 \<and>
            CreateChatCompletionStream w
              (run_request opts (run_messages msgs0 (context_strings opts))) = Inr stream \<and>
            snd (run_recv_loop stream []) = Inr msg"
  with assms show "snd (run w opts) = Inr ()"
    by (auto simp: run_unfold run_commit_dry Let_def)
  from assms h show "stdouts (fst (run w opts)) =
              stdouts (fst (run_recv_loop stream []))
              @ [[CHR 0x0A],
                 ''Run the following command to commit:'' @ [CHR 0x0A],
                 filepath_Base w (exec_Path w) @ '' '' @ shellescape_Quote w ''commit''
                   @ '' '' @ shellescape_Quote w ''-m'' @ '' '' @ shellescape_Quote w msg
                   @ (if amend opts then '' '' @ shellescape_Quote w ''--amend'' else [])
                   @ [CHR 0x0A]]"
    by (auto simp: run_unfold run_commit_dry Let_def stdouts_def quiet Println_def)
qed

text \<open>
  Witness: a dry run in the example world.
\<close>

theorem dry_run_never_commits_witness:
  "dryRun (example_opts\<lparr>dryRun := True\<rparr>) \<and>
   git_runs (fst (run example_world (example_opts\<lparr>dryRun := True\<rparr>))) = [] \<and>
   snd (run example_world (example_opts\<lparr>dryRun := True\<rparr>)) = Inr () \<and>
   stdouts (fst (run example_world (example_opts\<lparr>dryRun := True\<rparr>))) =
     [''fix: '', ''typo'', [CHR 0x0A],
      ''Run the following command to commit:'' @ [CHR 0x0A],
      ''git commit -m '' @ [CHR 0x27] @ ''fix: typo'' @ [CHR 0x27, CHR 0x0A]]"
proof -
  let ?o = "example_opts\<lparr>dryRun := True\<rparr>"
  have d: "dryRun ?o" by (simp add: example_opts_def)
  note t = dry_run_never_commits [OF d, of example_world]
  have reach: "os_Getwd example_world = Inr ''/repo'' \<and> \<not> (ref ?o \<noteq> [] \<and> amend ?o) \<and>
      snd (run_hash example_world ?o) = Inr [] \<and>
      BuildPrompt example_world ''/repo'' [] (amend ?o) 128000 = Inr example_prompt \<and>
      CreateChatCompletionStream example_world
        (run_request ?o (run_messages example_prompt (context_strings ?o)))
        = Inr [Inr [''fix: ''], Inr [''typo''], Inl EOF] \<and>
      snd (run_recv_loop [Inr [''fix: ''], Inr [''typo''], Inl EOF] []) = Inr ''fix: typo''"
    by (simp add: example_world_def example_opts_def run_hash_def)
  from t have r: "snd (run example_world ?o) = Inr () \<and>
            stdouts (fst (run example_world ?o)) =
              stdouts (fst (run_recv_loop [Inr [''fix: ''], Inr [''typo''], Inl EOF] []))
              @ [[CHR 0x0A],
                 ''Run the following command to commit:'' @ [CHR 0x0A],
                 filepath_Base example_world (exec_Path example_world) @ '' ''
                   @ shellescape_Quote example_world ''commit''
                   @ '' '' @ shellescape_Quote example_world ''-m'' @ '' ''
                   @ shellescape_Quote example_world ''fix: typo''
                   @ (if amend ?o then '' '' @ shellescape_Quote example_world ''--amend'' else [])
                   @ [CHR 0x0A]]"
    using reach by blast
  from d t r show ?thesis
    by (simp add: example_defs)
qed

text \<open>
  Claim C9 as stated fails: a dry run on a reference that does not resolve returns an error
  and prints no command.
\<close>

theorem dry_run_failure_counterexample:
  "dryRun (example_opts\<lparr>dryRun := True, ref := ''nosuch''\<rparr>) \<and>
   run example_world (example_opts\<lparr>dryRun := True, ref := ''nosuch''\<rparr>)
     = ([Getwd, GitOutput [''rev-parse'', ''nosuch'']],
        Inl (ErrorfResolveRef ''nosuch'' (External ''exit status 128''))) \<and>
   snd (run example_world (example_opts\<lparr>dryRun := True, ref := ''nosuch''\<rparr>)) \<noteq> Inr () \<and>
   stdouts (fst (run example_world (example_opts\<lparr>dryRun := True, ref := ''nosuch''\<rparr>))) = []"
  by (simp add: run_def example_defs)

section \<open>No context strings\<close>

text \<open>
  Claim C10. With no context string, the message lists handed to the chat client are exactly
  the message lists that \<open>BuildPrompt\<close> returned to \<open>run\<close>: nothing is added,
  removed or reordered.
\<close>

theorem no_context_sends_prompt_unchanged:
  assumes "context_strings opts = []"
  shows "map Messages (requests (fst (run w opts))) = prompts_returned w (fst (run w opts))"
  using assms
  by (simp add: run_unfold observation_defs quiet run_messages_eq run_request_def Let_def Println_def
           split: sum.splits)

text \<open>
  Witness: the example world with its default options, where one request is made.
\<close>

theorem no_context_sends_prompt_unchanged_witness:
  "context_strings example_opts = [] \<and>
   map Messages (requests (fst (run example_world example_opts))) = [example_prompt] \<and>
   prompts_returned example_world (fst (run example_world example_opts)) = [example_prompt]"
proof -
  have c: "context_strings example_opts = []" by (simp add: example_opts_def)
  have p: "prompts_returned example_world (fst (run example_world example_opts))
             = [example_prompt]"
    by (simp add: run_def example_defs deferred_Close_def)
  from c p no_context_sends_prompt_unchanged [OF c, of example_world] show ?thesis
    by simp
qed

end
